theory Spec2Isabelle
  imports Main
begin

section \<open>JavaScript objects used as dictionaries\<close>

text \<open>
  The program keeps its dictionaries (\<open>modules\<close>, \<open>resolutionMap\<close>,
  \<open>pluginTranslations\<close>, the configuration objects) in plain JavaScript objects. The
  own properties of such an object are modelled by a map from property names to values.
  An object written as a literal, or built by \<open>Object.fromEntries\<close>, inherits from
  \<open>Object.prototype\<close>, and both the \<open>in\<close> operator and a property read
  \<open>obj[key]\<close> follow the prototype chain. The names below are the string-keyed
  properties of \<open>Object.prototype\<close>.
\<close>

definition Object_prototype_keys :: "string list" where
  "Object_prototype_keys =
     [''constructor'', ''__defineGetter__'', ''__defineSetter__'', ''hasOwnProperty'',
      ''__lookupGetter__'', ''__lookupSetter__'', ''isPrototypeOf'',
      ''propertyIsEnumerable'', ''toString'', ''valueOf'', ''__proto__'',
      ''toLocaleString'']"

definition inherited :: "string \<Rightarrow> bool" where
  "inherited k = (k \<in> set Object_prototype_keys)"

text \<open>\<open>key in obj\<close> for an object whose own properties are \<open>obj\<close>.\<close>

definition js_in :: "string \<Rightarrow> (string \<rightharpoonup> 'a) \<Rightarrow> bool" where
  "js_in k obj = (case obj k of Some v \<Rightarrow> True | None \<Rightarrow> inherited k)"

text \<open>
  \<open>Object.fromEntries(entries)\<close> and an object literal with spread members define the
  properties in order, a later definition of a name replacing an earlier one.
\<close>

definition Object_fromEntries :: "(string \<times> 'a) list \<Rightarrow> (string \<rightharpoonup> 'a)" where
  "Object_fromEntries entries = map_of (rev entries)"

text \<open>
  \<open>Object.assign(target, source)\<close> for a target that is a plain object and a source
  of strings given by its entries in order. Each entry is assigned, not defined: the
  assignment to the key \<open>__proto__\<close> reaches the setter inherited from
  \<open>Object.prototype\<close>, which ignores a value that is no object, so that entry is lost.
\<close>

fun Object_assign ::
  "(string \<rightharpoonup> string) \<Rightarrow> (string \<times> string) list \<Rightarrow> (string \<rightharpoonup> string)" where
  "Object_assign target [] = target"
| "Object_assign target ((k, v) # rest) =
     Object_assign (if k = ''__proto__'' then target else target(k \<mapsto> v)) rest"

text \<open>
  The record schemas of zod, which also wrap the arguments of the callbacks handed to a
  plugin, build their output key by key and leave a key \<open>__proto__\<close> out.
\<close>

definition z_record_pairs :: "(string \<times> 'a) list \<Rightarrow> (string \<times> 'a) list" where
  "z_record_pairs pairs = filter (\<lambda>pair. fst pair \<noteq> ''__proto__'') pairs"

definition z_record_map :: "(string \<rightharpoonup> 'a) \<Rightarrow> (string \<rightharpoonup> 'a)" where
  "z_record_map obj = obj(''__proto__'' := None)"

text \<open>The single quote, the double quote and the backtick.\<close>

definition sq :: string where
  "sq = [CHR 0x27]"

definition dq :: string where
  "dq = [CHR 0x22]"

definition bt :: string where
  "bt = [CHR 0x60]"

section \<open>The plugin runtime (\<open>runPlugins\<close>)\<close>

text \<open>
  The exceptions: an \<open>Error\<close> with its message, an \<open>AstroError\<close> with its message
  and hint, and the \<open>TypeError\<close> of an assignment that is refused, with the key.
\<close>

datatype exn = Error string | AstroError string string | TypeError string

text \<open>
  The validated configuration. Only the fields the program reads are named; the rest of
  the configuration is the record's extension.
\<close>

datatype logo_config = LogoSrc string | LogoDarkLight string string

record vitesse_config =
  prerender :: bool
  components :: "(string \<times> string) list"
  customCss :: "string list"
  logo :: "logo_config option"

type_synonym 'v user_config = "string \<rightharpoonup> 'v"

text \<open>
  A locale's strings and the argument of \<open>injectTranslations\<close> are given by their
  \<open>Object.entries\<close>; the accumulated table is the object \<open>pluginTranslations\<close>.
\<close>

type_synonym locale_entries = "(string \<times> string) list"
type_synonym translation_entries = "(string \<times> locale_entries) list"
type_synonym plugin_translations = "string \<rightharpoonup> (string \<rightharpoonup> string)"

text \<open>
  The variables that the callbacks handed to a plugin close over: \<open>userConfig\<close>,
  \<open>vitesseConfig\<close>, \<open>integrations\<close> and \<open>pluginTranslations\<close>.
\<close>

record ('v, 'z, 'i) run_state =
  userConfig :: "'v user_config"
  vitesseConfig :: "'z vitesse_config_scheme"
  integrations :: "'i list"
  pluginTranslations :: plugin_translations

text \<open>The host context: \<open>context.config.output\<close>, \<open>context.config.integrations\<close>,
  \<open>context.command\<close> and \<open>context.isRestart\<close>.\<close>

record 'i plugin_context =
  config_output :: string
  host_integrations :: "'i list"
  command :: string
  isRestart :: bool

text \<open>
  The object a plugin's \<open>setup\<close> receives, as far as it is data: the configuration
  snapshot; the names of the configured plugins, which the snapshot carries under the
  key \<open>plugins\<close> when a plugin list was given; the host's configuration with its
  integrations followed by those added so far; the command, the restart flag and the
  label of the forked logger.
\<close>

record ('v, 'i) setup_args =
  config :: "'v user_config"
  config_plugins :: "string list option"
  astro_output :: string
  astro_integrations :: "'i list"
  setup_command :: string
  setup_isRestart :: bool
  logger_label :: string

text \<open>
  The three callbacks return nothing, so what a \<open>setup\<close> function does to the runtime
  is the sequence of steps it takes for the arguments it was given: a call of a
  callback, an exception of its own, or a \<open>try\<close> block with the steps of its body and
  the steps of its \<open>catch\<close> clause. The callbacks throw inside \<open>setup\<close>, so an
  exception of a callback leaves the enclosing \<open>try\<close> body, or \<open>setup\<close> itself when
  the call stands in none.
\<close>

datatype ('v, 'i) call =
    UpdateConfig "'v user_config"
  | AddIntegration 'i
  | InjectTranslations translation_entries
  | Raise exn
  | Try "('v, 'i) call list" "('v, 'i) call list"

record ('v, 'i) plugin =
  name :: string
  hooks_setup :: "('v, 'i) setup_args \<Rightarrow> ('v, 'i) call list"

definition plugins_key_message :: "string \<Rightarrow> string" where
  "plugins_key_message n =
     ''The '' @ sq @ n @ sq @ '' plugin tried to update the '' @ sq @ ''plugins'' @ sq @
     '' config key which is not supported.''"

definition update_context_message :: "string \<Rightarrow> string" where
  "update_context_message n =
     ''Invalid config update provided by the '' @ sq @ n @ sq @ '' plugin''"

text \<open>
  \<open>updateConfig\<close> (lines 234-253). The validator \<open>parseWithFriendlyErrors\<close> applied to
  \<open>VitesseConfigSchema\<close> is not part of the sources at hand; it is the parameter
  \<open>parse\<close>, taking the input and the message. The result is the exception thrown, if
  any, and the closure variables after the call.
\<close>

definition updateConfig ::
  "('v user_config \<Rightarrow> string \<Rightarrow> exn + 'z vitesse_config_scheme) \<Rightarrow> string \<Rightarrow>
   'v user_config \<Rightarrow> ('v, 'z, 'i) run_state \<Rightarrow> exn option \<times> ('v, 'z, 'i) run_state" where
  "updateConfig parse n newConfig st =
     (if js_in ''plugins'' newConfig then (Some (Error (plugins_key_message n)), st)
      else
        let mergedUserConfig = userConfig st ++ newConfig in
        (case parse mergedUserConfig (update_context_message n) of
           Inl e \<Rightarrow> (Some e, st)
         | Inr mergedConfig \<Rightarrow>
             (None, st\<lparr>userConfig := mergedUserConfig, vitesseConfig := mergedConfig\<rparr>)))"

definition addIntegration ::
  "'i \<Rightarrow> ('v, 'z, 'i) run_state \<Rightarrow> exn option \<times> ('v, 'z, 'i) run_state" where
  "addIntegration integration st = (None, st\<lparr>integrations := integrations st @ [integration]\<rparr>)"

text \<open>
  One round of the loop of \<open>injectTranslations\<close> (lines 267-270):
  \<open>pluginTranslations[locale] ??= {}\<close> reads through the prototype chain, so for a
  locale named like a property of \<open>Object.prototype\<close> the value read is not nullish, no
  own entry is created, and \<open>Object.assign\<close> writes into the inherited built-in object
  instead of the table. That object is a built-in function (\<open>Object.prototype\<close> itself
  for \<open>__proto__\<close>): its \<open>length\<close> and \<open>name\<close>, and the \<open>prototype\<close> of the
  constructor \<open>Object\<close>, are not writable, and \<open>caller\<close> and \<open>arguments\<close> are
  inherited accessors whose setter throws; \<open>Object.assign\<close> throws a \<open>TypeError\<close>
  at the first such key. What it writes into a built-in object is outside the table.
\<close>

definition refused_keys :: "string \<Rightarrow> string list" where
  "refused_keys locale =
     (if locale = ''__proto__'' then []
      else if locale = ''constructor''
        then [''length'', ''name'', ''prototype'', ''caller'', ''arguments'']
      else [''length'', ''name'', ''caller'', ''arguments''])"

definition inject_locale ::
  "string \<Rightarrow> locale_entries \<Rightarrow> plugin_translations \<Rightarrow> exn option \<times> plugin_translations" where
  "inject_locale locale localeTranslations pt =
     (case pt locale of
        Some t \<Rightarrow> (None, pt(locale \<mapsto> Object_assign t localeTranslations))
      | None \<Rightarrow>
          if inherited locale then
            (case filter (\<lambda>k. k \<in> set (refused_keys locale)) (map fst localeTranslations) of
               [] \<Rightarrow> (None, pt)
             | k # ks \<Rightarrow> (Some (TypeError k), pt))
          else (None, pt(locale \<mapsto> Object_assign Map.empty localeTranslations)))"

fun inject_entries ::
  "translation_entries \<Rightarrow> plugin_translations \<Rightarrow> exn option \<times> plugin_translations" where
  "inject_entries [] pt = (None, pt)"
| "inject_entries ((locale, localeTranslations) # rest) pt =
     (case inject_locale locale localeTranslations pt of
        (Some e, pt') \<Rightarrow> (Some e, pt')
      | (None, pt') \<Rightarrow> inject_entries rest pt')"

text \<open>The argument of \<open>injectTranslations\<close> as the callback receives it: parsed by a
  record schema of record schemas.\<close>

definition parsed_translations :: "translation_entries \<Rightarrow> translation_entries" where
  "parsed_translations translations =
     map (\<lambda>(locale, localeTranslations). (locale, z_record_pairs localeTranslations))
         (z_record_pairs translations)"

definition injectTranslations ::
  "translation_entries \<Rightarrow> ('v, 'z, 'i) run_state \<Rightarrow> exn option \<times> ('v, 'z, 'i) run_state" where
  "injectTranslations translations st =
     (case inject_entries (parsed_translations translations) (pluginTranslations st) of
        (thrown, pt) \<Rightarrow> (thrown, st\<lparr>pluginTranslations := pt\<rparr>))"

text \<open>
  The steps of a \<open>setup\<close>, run on the closure variables. \<open>updateConfig\<close> receives
  its argument parsed by a record schema. A \<open>catch\<close> clause runs on the variables as
  the body left them.
\<close>

fun run_call ::
  "('v user_config \<Rightarrow> string \<Rightarrow> exn + 'z vitesse_config_scheme) \<Rightarrow> string \<Rightarrow>
   ('v, 'i) call \<Rightarrow> ('v, 'z, 'i) run_state \<Rightarrow> exn option \<times> ('v, 'z, 'i) run_state"
and run_calls ::
  "('v user_config \<Rightarrow> string \<Rightarrow> exn + 'z vitesse_config_scheme) \<Rightarrow> string \<Rightarrow>
   ('v, 'i) call list \<Rightarrow> ('v, 'z, 'i) run_state \<Rightarrow> exn option \<times> ('v, 'z, 'i) run_state" where
  "run_call parse n (UpdateConfig newConfig) st =
     updateConfig parse n (z_record_map newConfig) st"
| "run_call parse n (AddIntegration integration) st = addIntegration integration st"
| "run_call parse n (InjectTranslations translations) st = injectTranslations translations st"
| "run_call parse n (Raise e) st = (Some e, st)"
| "run_call parse n (Try body handler) st =
     (case run_calls parse n body st of
        (Some e, st') \<Rightarrow> run_calls parse n handler st'
      | (None, st') \<Rightarrow> (None, st'))"
| "run_calls parse n [] st = (None, st)"
| "run_calls parse n (c # cs) st =
     (case run_call parse n c st of
        (Some e, st') \<Rightarrow> (Some e, st')
      | (None, st') \<Rightarrow> run_calls parse n cs st')"

text \<open>The argument of one \<open>setup\<close> call (lines 232-272), built from the current state.\<close>

definition setup_arguments ::
  "('v, 'i) plugin list option \<Rightarrow> 'i plugin_context \<Rightarrow> string \<Rightarrow>
   ('v, 'z, 'i) run_state \<Rightarrow> ('v, 'i) setup_args" where
  "setup_arguments pluginsUserConfig context n st =
     \<lparr>config = userConfig st,
      config_plugins = map_option (map name) pluginsUserConfig,
      astro_output = config_output context,
      astro_integrations = host_integrations context @ integrations st,
      setup_command = command context,
      setup_isRestart = isRestart context,
      logger_label = n\<rparr>"

text \<open>The loop over \<open>pluginsConfig\<close> (lines 228-273): each \<open>setup\<close> is awaited before
  the next one starts, and an exception leaves the loop.\<close>

fun run_setups ::
  "('v user_config \<Rightarrow> string \<Rightarrow> exn + 'z vitesse_config_scheme) \<Rightarrow>
   ('v, 'i) plugin list option \<Rightarrow> 'i plugin_context \<Rightarrow> ('v, 'i) plugin list \<Rightarrow>
   ('v, 'z, 'i) run_state \<Rightarrow> exn option \<times> ('v, 'z, 'i) run_state" where
  "run_setups parse pluginsUserConfig context [] st = (None, st)"
| "run_setups parse pluginsUserConfig context (p # ps) st =
     (case run_calls parse (name p)
             (hooks_setup p (setup_arguments pluginsUserConfig context (name p) st)) st of
        (Some e, st') \<Rightarrow> (Some e, st')
      | (None, st') \<Rightarrow> run_setups parse pluginsUserConfig context ps st')"

record ('z, 'i) run_result =
  result_integrations :: "'i list"
  result_vitesseConfig :: "'z vitesse_config_scheme"
  result_pluginTranslations :: plugin_translations

definition prerender_conflict :: exn where
  "prerender_conflict =
     AstroError
       (''Vitesse'' @ [CHR 0xE2, CHR 0x80, CHR 0x99] @ ''s '' @ bt @ ''prerender: false'' @ bt @
        '' option requires '' @ bt @ ''output: '' @ dq @ ''hybrid'' @ dq @ bt @ '' or '' @
        bt @ dq @ ''server'' @ dq @ bt @ '' in your Astro config.'')
       (''Either set '' @ bt @ ''output'' @ bt @ '' in your Astro config or set '' @ bt @
        ''prerender: true'' @ bt @ '' in the Vitesse options.'' @ [CHR 0x0A, CHR 0x0A] @
        ''Learn more about rendering modes in the Astro docs: '' @
        ''https://docs.astro.build/en/basics/rendering-modes/'')"

definition initial_state ::
  "'v user_config \<Rightarrow> 'z vitesse_config_scheme \<Rightarrow> ('v, 'z, 'i) run_state" where
  "initial_state vitesseUserConfig validated =
     \<lparr>userConfig = vitesseUserConfig, vitesseConfig = validated, integrations = [],
      pluginTranslations = Map.empty\<rparr>"

text \<open>
  \<open>runPlugins\<close> (lines 202-284). The plugin list is typed, so its validation against
  \<open>vitessePluginsConfigSchema\<close> only applies the default \<open>[]\<close> to an absent list.
\<close>

definition runPlugins ::
  "('v user_config \<Rightarrow> string \<Rightarrow> exn + 'z vitesse_config_scheme) \<Rightarrow> 'v user_config \<Rightarrow>
   ('v, 'i) plugin list option \<Rightarrow> 'i plugin_context \<Rightarrow> exn + ('z, 'i) run_result" where
  "runPlugins parse vitesseUserConfig pluginsUserConfig context =
     (case parse vitesseUserConfig ''Invalid config passed to vitesse integration'' of
        Inl e \<Rightarrow> Inl e
      | Inr validated \<Rightarrow>
          let pluginsConfig = (case pluginsUserConfig of None \<Rightarrow> [] | Some ps \<Rightarrow> ps) in
          (case run_setups parse pluginsUserConfig context pluginsConfig
                  (initial_state vitesseUserConfig validated) of
             (Some e, st) \<Rightarrow> Inl e
           | (None, st) \<Rightarrow>
               if config_output context = ''static'' \<and> \<not> prerender (vitesseConfig st)
               then Inl prerender_conflict
               else Inr \<lparr>result_integrations = integrations st,
                         result_vitesseConfig = vitesseConfig st,
                         result_pluginTranslations = pluginTranslations st\<rparr>))"

text \<open>
  The table the translations are expected to add up to, written from the description of
  \<open>injectTranslations\<close> and not from its code: for a locale, the fragments given for it
  by all calls, in the order of the calls; no entry when there is none, and otherwise
  the key-by-key merge in which a later value replaces an earlier one.
\<close>

definition fragments_of :: "string \<Rightarrow> translation_entries \<Rightarrow> locale_entries list" where
  "fragments_of locale entries = map snd (filter (\<lambda>entry. fst entry = locale) entries)"

definition merged_table :: "translation_entries list \<Rightarrow> plugin_translations" where
  "merged_table calls locale =
     (if fragments_of locale (concat calls) = [] then None
      else Some (map_of (rev (concat (fragments_of locale (concat calls))))))"

text \<open>
  The rounds of the loop of \<open>injectTranslations\<close> that ran to their end: of one call,
  of the steps of a \<open>setup\<close>, and of the plugins of a list, in the order in which they
  ran.
\<close>

fun completed_rounds :: "translation_entries \<Rightarrow> plugin_translations \<Rightarrow> translation_entries" where
  "completed_rounds [] pt = []"
| "completed_rounds ((locale, localeTranslations) # rest) pt =
     (case inject_locale locale localeTranslations pt of
        (Some e, pt') \<Rightarrow> []
      | (None, pt') \<Rightarrow> (locale, localeTranslations) # completed_rounds rest pt')"

fun rounds_of_call ::
  "('v user_config \<Rightarrow> string \<Rightarrow> exn + 'z vitesse_config_scheme) \<Rightarrow> string \<Rightarrow>
   ('v, 'i) call \<Rightarrow> ('v, 'z, 'i) run_state \<Rightarrow> translation_entries"
and rounds_of_calls ::
  "('v user_config \<Rightarrow> string \<Rightarrow> exn + 'z vitesse_config_scheme) \<Rightarrow> string \<Rightarrow>
   ('v, 'i) call list \<Rightarrow> ('v, 'z, 'i) run_state \<Rightarrow> translation_entries" where
  "rounds_of_call parse n (UpdateConfig newConfig) st = []"
| "rounds_of_call parse n (AddIntegration integration) st = []"
| "rounds_of_call parse n (InjectTranslations translations) st =
     completed_rounds (parsed_translations translations) (pluginTranslations st)"
| "rounds_of_call parse n (Raise e) st = []"
| "rounds_of_call parse n (Try body handler) st =
     rounds_of_calls parse n body st @
     (case run_calls parse n body st of
        (Some e, st') \<Rightarrow> rounds_of_calls parse n handler st'
      | (None, st') \<Rightarrow> [])"
| "rounds_of_calls parse n [] st = []"
| "rounds_of_calls parse n (c # cs) st =
     rounds_of_call parse n c st @
     (case run_call parse n c st of
        (Some e, st') \<Rightarrow> []
      | (None, st') \<Rightarrow> rounds_of_calls parse n cs st')"

fun rounds_of_setups ::
  "('v user_config \<Rightarrow> string \<Rightarrow> exn + 'z vitesse_config_scheme) \<Rightarrow>
   ('v, 'i) plugin list option \<Rightarrow> 'i plugin_context \<Rightarrow> ('v, 'i) plugin list \<Rightarrow>
   ('v, 'z, 'i) run_state \<Rightarrow> translation_entries" where
  "rounds_of_setups parse pluginsUserConfig context [] st = []"
| "rounds_of_setups parse pluginsUserConfig context (p # ps) st =
     (let cs = hooks_setup p (setup_arguments pluginsUserConfig context (name p) st)
      in rounds_of_calls parse (name p) cs st @
         (case run_calls parse (name p) cs st of
            (Some e, st') \<Rightarrow> []
          | (None, st') \<Rightarrow> rounds_of_setups parse pluginsUserConfig context ps st'))"

text \<open>
  An entry of the table after further fragments for its locale were assigned to it, and
  what a sequence of rounds makes of a table: it extends the entries of the locales that
  are not named like a property of \<open>Object.prototype\<close>, and creates no entry for the
  others.
\<close>

definition extended ::
  "locale_entries list \<Rightarrow> (string \<rightharpoonup> string) option \<Rightarrow> (string \<rightharpoonup> string) option" where
  "extended fragments entry =
     (if fragments = [] then entry
      else Some ((case entry of None \<Rightarrow> Map.empty | Some t \<Rightarrow> t) ++
                 map_of (rev (concat (map z_record_pairs fragments)))))"

definition accumulates ::
  "translation_entries \<Rightarrow> plugin_translations \<Rightarrow> plugin_translations \<Rightarrow> bool" where
  "accumulates rounds pt pt' =
     (\<forall>locale.
        (\<not> inherited locale \<longrightarrow> pt' locale = extended (fragments_of locale rounds) (pt locale)) \<and>
        (inherited locale \<longrightarrow> pt locale = None \<longrightarrow> pt' locale = None))"

section \<open>The virtual module registry (\<open>vitePluginVitesseUserConfig\<close>)\<close>

text \<open>
  \<open>JSON.stringify\<close> of a string: the string between double quotes, with the double
  quote, the backslash and the control characters escaped.
\<close>

definition hex_digit :: "nat \<Rightarrow> char" where
  "hex_digit n = ''0123456789abcdef'' ! (n mod 16)"

definition json_escape :: "char \<Rightarrow> string" where
  "json_escape c =
     (if c = CHR 0x22 then [CHR 0x5C, CHR 0x22]
      else if c = CHR 0x5C then [CHR 0x5C, CHR 0x5C]
      else if c = CHR 0x08 then [CHR 0x5C, CHR ''b'']
      else if c = CHR 0x0C then [CHR 0x5C, CHR ''f'']
      else if c = CHR 0x0A then [CHR 0x5C, CHR ''n'']
      else if c = CHR 0x0D then [CHR 0x5C, CHR ''r'']
      else if c = CHR 0x09 then [CHR 0x5C, CHR ''t'']
      else if (of_char c :: nat) < 32
        then [CHR 0x5C, CHR ''u'', CHR ''0'', CHR ''0'',
              hex_digit ((of_char c :: nat) div 16), hex_digit (of_char c :: nat)]
      else [c])"

definition JSON_stringify :: "string \<Rightarrow> string" where
  "JSON_stringify s = dq @ concat (map json_escape s) @ dq"

text \<open>
  The value of a JSON string literal, to state what an emitted module reference denotes:
  the inverse of the quoting above. Of the \<open>\u\<close> escapes it reads the ones for single
  bytes, written with lower-case digits, which are the ones \<open>JSON.stringify\<close> writes.
\<close>

definition hex_value :: "char \<Rightarrow> nat option" where
  "hex_value c =
     (if c \<in> set ''0123456789abcdef''
      then Some (length (takeWhile (\<lambda>d. d \<noteq> c) ''0123456789abcdef''))
      else None)"

definition simple_escape :: "char \<Rightarrow> char option" where
  "simple_escape e =
     (if e = CHR 0x22 then Some (CHR 0x22)
      else if e = CHR 0x5C then Some (CHR 0x5C)
      else if e = CHR ''/'' then Some (CHR ''/'')
      else if e = CHR ''b'' then Some (CHR 0x08)
      else if e = CHR ''f'' then Some (CHR 0x0C)
      else if e = CHR ''n'' then Some (CHR 0x0A)
      else if e = CHR ''r'' then Some (CHR 0x0D)
      else if e = CHR ''t'' then Some (CHR 0x09)
      else None)"

fun json_unescape :: "string \<Rightarrow> string option" where
  "json_unescape [] = Some []"
| "json_unescape (c # cs) =
     (if c = CHR 0x5C then
        (case cs of
           [] \<Rightarrow> None
         | e # rest \<Rightarrow>
             if e = CHR ''u'' then
               (case rest of
                  a # b # x # y # rest' \<Rightarrow>
                    if a = CHR ''0'' \<and> b = CHR ''0'' then
                      (case (hex_value x, hex_value y) of
                         (Some m, Some n) \<Rightarrow>
                           map_option ((#) (char_of (16 * m + n))) (json_unescape rest')
                       | _ \<Rightarrow> None)
                    else None
                | _ \<Rightarrow> None)
             else
               (case simple_escape e of
                  None \<Rightarrow> None
                | Some d \<Rightarrow> map_option ((#) d) (json_unescape rest)))
      else if c = CHR 0x22 \<or> (of_char c :: nat) < 32 then None
      else map_option ((#) c) (json_unescape cs))"

definition string_literal_value :: "string \<Rightarrow> string option" where
  "string_literal_value lit =
     (case lit of
        [] \<Rightarrow> None
      | q # body \<Rightarrow>
          if q = CHR 0x22 \<and> body \<noteq> [] \<and> last body = CHR 0x22
          then json_unescape (butlast body) else None)"

text \<open>
  What the registry takes from its environment: Node's \<open>fileURLToPath\<close> and
  \<open>path.resolve\<close> (with two arguments), and \<open>JSON.stringify\<close> of the validated
  configuration, of the project context and of the plugin translations.
\<close>

record 'u project_context =
  build_format :: string
  root :: 'u
  srcDir :: 'u
  trailingSlash :: string

record ('u, 'z) host =
  fileURLToPath :: "'u \<Rightarrow> string"
  path_resolve :: "string \<Rightarrow> string \<Rightarrow> string"
  stringify_config :: "'z vitesse_config_scheme \<Rightarrow> string"
  stringify_context :: "'u project_context \<Rightarrow> string"
  stringify_translations :: "plugin_translations \<Rightarrow> string"

definition resolveVirtualModuleId :: "string \<Rightarrow> string" where
  "resolveVirtualModuleId ident = CHR 0x00 # ident"

definition startsWith_dot :: "string \<Rightarrow> bool" where
  "startsWith_dot ident = (case ident of [] \<Rightarrow> False | c # _ \<Rightarrow> c = CHR ''.'')"

text \<open>The helper \<open>resolveId\<close> (lines 31-32); \<open>base\<close> is \<open>None\<close> when the caller
  leaves it out, and then the project root is taken.\<close>

definition resolveId :: "('u, 'z) host \<Rightarrow> 'u \<Rightarrow> string \<Rightarrow> 'u option \<Rightarrow> string" where
  "resolveId h project_root ident base =
     JSON_stringify
       (if startsWith_dot ident
        then path_resolve h
               (fileURLToPath h (case base of None \<Rightarrow> project_root | Some b \<Rightarrow> b)) ident
        else ident)"

definition virtualComponentModules ::
  "('u, 'z) host \<Rightarrow> 'u \<Rightarrow> 'z vitesse_config_scheme \<Rightarrow> (string \<times> string) list" where
  "virtualComponentModules h project_root opts =
     map (\<lambda>(component, path).
            (''virtual:vitesse/components/'' @ component,
             ''export { default } from '' @ resolveId h project_root path None @ '';''))
         (components opts)"

definition user_css :: "('u, 'z) host \<Rightarrow> 'u \<Rightarrow> 'z vitesse_config_scheme \<Rightarrow> string" where
  "user_css h project_root opts =
     concat (map (\<lambda>ident. ''import '' @ resolveId h project_root ident None @ '';'')
                 (customCss opts))"

text \<open>The text of \<open>virtual:vitesse/user-images\<close> (lines 51-59).\<close>

definition user_images :: "('u, 'z) host \<Rightarrow> 'u \<Rightarrow> 'z vitesse_config_scheme \<Rightarrow> string" where
  "user_images h project_root opts =
     (case logo opts of
        Some (LogoSrc src) \<Rightarrow>
          ''import src from '' @ resolveId h project_root src None @
          ''; export const logos = { dark: src, light: src };''
      | Some (LogoDarkLight dark light) \<Rightarrow>
          ''import dark from '' @ resolveId h project_root dark None @
          ''; import light from '' @ resolveId h project_root light None @
          ''; export const logos = { dark, light };''
      | None \<Rightarrow> ''export const logos = {};'')"

definition collection_config :: "('u, 'z) host \<Rightarrow> 'u project_context \<Rightarrow> string" where
  "collection_config h ctx =
     ''let userCollections;'' @ [CHR 0x0A] @
     ''      try {'' @ [CHR 0x0A] @
     ''        userCollections = (await import('' @
       resolveId h (root ctx) ''./content/config.ts'' (Some (srcDir ctx)) @
       '')).collections;'' @ [CHR 0x0A] @
     ''      } catch {}'' @ [CHR 0x0A] @
     ''      export const collections = userCollections;''"

text \<open>The members of the object literal \<open>modules\<close> (lines 42-67), in order, and the
  object they define.\<close>

definition modules_entries ::
  "('u, 'z) host \<Rightarrow> 'z vitesse_config_scheme \<Rightarrow> 'u project_context \<Rightarrow>
   plugin_translations \<Rightarrow> (string \<times> string) list" where
  "modules_entries h opts ctx translations =
     [(''virtual:vitesse/user-config'', ''export default '' @ stringify_config h opts),
      (''virtual:vitesse/project-context'', ''export default '' @ stringify_context h ctx),
      (''virtual:vitesse/user-css'', user_css h (root ctx) opts),
      (''virtual:vitesse/user-images'', user_images h (root ctx) opts),
      (''virtual:vitesse/collection-config'', collection_config h ctx),
      (''virtual:vitesse/plugin-translations'',
       ''export default '' @ stringify_translations h translations)] @
     virtualComponentModules h (root ctx) opts"

definition modules ::
  "('u, 'z) host \<Rightarrow> 'z vitesse_config_scheme \<Rightarrow> 'u project_context \<Rightarrow>
   plugin_translations \<Rightarrow> (string \<rightharpoonup> string)" where
  "modules h opts ctx translations = Object_fromEntries (modules_entries h opts ctx translations)"

text \<open>The public names: \<open>Object.keys(modules)\<close>.\<close>

definition module_names ::
  "('u, 'z) host \<Rightarrow> 'z vitesse_config_scheme \<Rightarrow> 'u project_context \<Rightarrow>
   plugin_translations \<Rightarrow> string list" where
  "module_names h opts ctx translations = remdups (map fst (modules_entries h opts ctx translations))"

definition resolutionMap ::
  "('u, 'z) host \<Rightarrow> 'z vitesse_config_scheme \<Rightarrow> 'u project_context \<Rightarrow>
   plugin_translations \<Rightarrow> (string \<rightharpoonup> string)" where
  "resolutionMap h opts ctx translations =
     Object_fromEntries
       (map (\<lambda>key. (resolveVirtualModuleId key, key)) (module_names h opts ctx translations))"

text \<open>
  A property read \<open>obj[key]\<close>: an own property, else a property inherited from
  \<open>Object.prototype\<close> (a built-in function or object, never a string of the program),
  else \<open>undefined\<close>.
\<close>

datatype 'a property = Own 'a | Inherited | Undefined

definition js_get :: "(string \<rightharpoonup> 'a) \<Rightarrow> string \<Rightarrow> 'a property" where
  "js_get obj k =
     (case obj k of Some v \<Rightarrow> Own v | None \<Rightarrow> if inherited k then Inherited else Undefined)"

text \<open>The hook \<open>resolveId\<close> of the returned plugin (lines 79-82).\<close>

definition plugin_resolveId ::
  "('u, 'z) host \<Rightarrow> 'z vitesse_config_scheme \<Rightarrow> 'u project_context \<Rightarrow>
   plugin_translations \<Rightarrow> string \<Rightarrow> string option" where
  "plugin_resolveId h opts ctx translations ident =
     (if js_in ident (modules h opts ctx translations)
      then Some (resolveVirtualModuleId ident) else None)"

text \<open>
  The hook \<open>load\<close> (lines 83-87). An own entry of \<open>resolutionMap\<close> is a module name,
  truthy unless it is the empty string. An inherited value is truthy too, but
  \<open>modules[resolution]\<close> then reads the property named by the string form of a
  built-in function or object, which \<open>modules\<close> neither has nor inherits, and \<open>load\<close>
  returns \<open>undefined\<close>.
\<close>

definition plugin_load ::
  "('u, 'z) host \<Rightarrow> 'z vitesse_config_scheme \<Rightarrow> 'u project_context \<Rightarrow>
   plugin_translations \<Rightarrow> string \<Rightarrow> string option" where
  "plugin_load h opts ctx translations ident =
     (case js_get (resolutionMap h opts ctx translations) ident of
        Own resolution \<Rightarrow>
          if resolution \<noteq> []
          then (case js_get (modules h opts ctx translations) resolution of
                  Own text \<Rightarrow> Some text
                | Inherited \<Rightarrow> None
                | Undefined \<Rightarrow> None)
          else None
      | Inherited \<Rightarrow> None
      | Undefined \<Rightarrow> None)"

section \<open>The translation loader (\<open>createTranslationSystemFromFs\<close>)\<close>

text \<open>
  A thrown value, as far as the \<open>catch\<close> clause looks at it: whether it is an instance
  of \<open>Error\<close>, and its \<open>code\<close> property when it has one that is a string.
\<close>

record thrown =
  instanceof_Error :: bool
  code :: "string option"
  message :: string

text \<open>
  The file system as the function sees it: the result of \<open>readdirSync\<close> on the
  directory \<open>content/i18n/\<close> under \<open>srcDir\<close>, and the result of \<open>readFileSync\<close>
  on the URL made from a name of that listing.
\<close>

record file_system =
  readdirSync :: "thrown + string list"
  readFileSync :: "string \<Rightarrow> thrown + string"

definition endsWith_json :: "string \<Rightarrow> bool" where
  "endsWith_json file = (5 \<le> length file \<and> drop (length file - 5) file = ''.json'')"

text \<open>The callback of \<open>map\<close> (lines 30-34), applied to the files in order; the first
  exception ends the traversal. \<open>JSON.parse\<close> is the parameter \<open>JSON_parse\<close>.\<close>

fun read_locale_files ::
  "(string \<Rightarrow> thrown + string) \<Rightarrow> (string \<Rightarrow> thrown + 'j) \<Rightarrow> string list \<Rightarrow>
   thrown + (string \<times> 'j) list" where
  "read_locale_files readFile JSON_parse [] = Inr []"
| "read_locale_files readFile JSON_parse (file # files) =
     (case readFile file of
        Inl e \<Rightarrow> Inl e
      | Inr text \<Rightarrow>
          (case JSON_parse text of
             Inl e \<Rightarrow> Inl e
           | Inr data \<Rightarrow>
               (case read_locale_files readFile JSON_parse files of
                  Inl e \<Rightarrow> Inl e
                | Inr entries \<Rightarrow> Inr ((take (length file - 5) file, data) # entries))))"

text \<open>The body of the \<open>try\<close> block (lines 23-35): the new value of \<open>userTranslations\<close>,
  or the exception that leaves the block before the assignment.\<close>

definition try_block ::
  "file_system \<Rightarrow> (string \<Rightarrow> thrown + 'j) \<Rightarrow> thrown + (string \<rightharpoonup> 'j)" where
  "try_block fs JSON_parse =
     (case readdirSync fs of
        Inl e \<Rightarrow> Inl e
      | Inr files \<Rightarrow>
          (case read_locale_files (readFileSync fs) JSON_parse (filter endsWith_json files) of
             Inl e \<Rightarrow> Inl e
           | Inr entries \<Rightarrow> Inr (Object_fromEntries entries)))"

definition is_ENOENT :: "thrown \<Rightarrow> bool" where
  "is_ENOENT e = (instanceof_Error e \<and> code e = Some ''ENOENT'')"

text \<open>\<open>userTranslations\<close> after the \<open>try\<close>/\<open>catch\<close> statement (lines 21-45), or the
  exception rethrown by the \<open>catch\<close> clause.\<close>

definition userTranslations ::
  "file_system \<Rightarrow> (string \<Rightarrow> thrown + 'j) \<Rightarrow> thrown + (string \<rightharpoonup> 'j)" where
  "userTranslations fs JSON_parse =
     (case try_block fs JSON_parse of
        Inr table \<Rightarrow> Inr table
      | Inl e \<Rightarrow> if is_ENOENT e then Inr Map.empty else Inl e)"

text \<open>
  \<open>createTranslationSystemFromFs\<close> (lines 15-48). \<open>createTranslationSystem\<close> is not part
  of the sources at hand; it is a parameter. An absent third argument is the empty table.
\<close>

definition createTranslationSystemFromFs ::
  "('o \<Rightarrow> (string \<rightharpoonup> 'j) \<Rightarrow> (string \<rightharpoonup> 't) \<Rightarrow> thrown + 'r) \<Rightarrow> file_system \<Rightarrow>
   (string \<Rightarrow> thrown + 'j) \<Rightarrow> 'o \<Rightarrow> (string \<rightharpoonup> 't) option \<Rightarrow> thrown + 'r" where
  "createTranslationSystemFromFs createTranslationSystem fs JSON_parse opts translations =
     (case userTranslations fs JSON_parse of
        Inl e \<Rightarrow> Inl e
      | Inr table \<Rightarrow>
          createTranslationSystem opts table
            (case translations of None \<Rightarrow> Map.empty | Some t \<Rightarrow> t))"

section \<open>The navigation item schemas\<close>

text \<open>
  The values a schema is applied to. \<open>'n\<close> stands for the numbers other than \<open>NaN\<close>;
  an object is given by its own enumerable properties.
\<close>

datatype 'n jsval =
    JUndefined
  | JNull
  | JBool bool
  | JNum 'n
  | JNaN
  | JStr string
  | JArr "'n jsval list"
  | JObj "(string \<times> 'n jsval) list"

text \<open>A schema maps a value to its parsed output, or to \<open>None\<close> when \<open>parse\<close> throws
  a validation error.\<close>

type_synonym ('n, 'a) schema = "'n jsval \<Rightarrow> 'a option"

definition property_of :: "(string \<times> 'n jsval) list \<Rightarrow> string \<Rightarrow> 'n jsval" where
  "property_of props k = (case map_of props k of None \<Rightarrow> JUndefined | Some v \<Rightarrow> v)"

definition z_string :: "('n, string) schema" where
  "z_string v = (case v of JStr s \<Rightarrow> Some s | _ \<Rightarrow> None)"

fun all_parsed :: "(string \<times> 'a option) list \<Rightarrow> (string \<times> 'a) list option" where
  "all_parsed [] = Some []"
| "all_parsed ((k, None) # rest) = None"
| "all_parsed ((k, Some a) # rest) =
     (case all_parsed rest of None \<Rightarrow> None | Some out \<Rightarrow> Some ((k, a) # out))"

definition z_record :: "('n, 'a) schema \<Rightarrow> ('n, (string \<times> 'a) list) schema" where
  "z_record element v =
     (case v of
        JObj props \<Rightarrow>
          map_option z_record_pairs (all_parsed (map (\<lambda>(k, x). (k, element x)) props))
      | _ \<Rightarrow> None)"

definition z_default :: "'n jsval \<Rightarrow> ('n, 'a) schema \<Rightarrow> ('n, 'a) schema" where
  "z_default d inner v = inner (if v = JUndefined then d else v)"

definition z_optional :: "('n, 'a) schema \<Rightarrow> ('n, 'a option) schema" where
  "z_optional inner v = (if v = JUndefined then Some None else map_option Some (inner v))"

fun z_union :: "('n, 'a) schema list \<Rightarrow> ('n, 'a) schema" where
  "z_union [] v = None"
| "z_union (option # options) v =
     (case option v of Some out \<Rightarrow> Some out | None \<Rightarrow> z_union options v)"

datatype 'n attr_value = AStr string | ANum 'n | ABool bool | AUndefined

definition a_string :: "('n, 'n attr_value) schema" where
  "a_string v = (case v of JStr s \<Rightarrow> Some (AStr s) | _ \<Rightarrow> None)"

definition a_number :: "('n, 'n attr_value) schema" where
  "a_number v = (case v of JNum x \<Rightarrow> Some (ANum x) | _ \<Rightarrow> None)"

definition a_boolean :: "('n, 'n attr_value) schema" where
  "a_boolean v = (case v of JBool b \<Rightarrow> Some (ABool b) | _ \<Rightarrow> None)"

definition a_undefined :: "('n, 'n attr_value) schema" where
  "a_undefined v = (case v of JUndefined \<Rightarrow> Some AUndefined | _ \<Rightarrow> None)"

definition linkHTMLAttributesSchema :: "('n, (string \<times> 'n attr_value) list) schema" where
  "linkHTMLAttributesSchema = z_record (z_union [a_string, a_number, a_boolean, a_undefined])"

definition NavBarLinkItemHTMLAttributesSchema :: "('n, (string \<times> 'n attr_value) list) schema" where
  "NavBarLinkItemHTMLAttributesSchema = z_default (JObj []) linkHTMLAttributesSchema"

definition translations_schema :: "('n, (string \<times> string) list) schema" where
  "translations_schema = z_default (JObj []) (z_record z_string)"

text \<open>
  The outputs: a link item (label, translations, link, attrs) and an internal link item
  (label if given, translations, slug, attrs).
\<close>

datatype 'n NavBarItem =
    NavBarLinkItem string "(string \<times> string) list" string "(string \<times> 'n attr_value) list"
  | InternalNavBarLinkItem "string option" "(string \<times> string) list" string
      "(string \<times> 'n attr_value) list"

text \<open>\<open>NavBarLinkItemSchema\<close> (lines 22-27) is strict: a key outside its shape is an
  error.\<close>

definition NavBarLinkItemSchema :: "('n, 'n NavBarItem) schema" where
  "NavBarLinkItemSchema v =
     (case v of
        JObj props \<Rightarrow>
          (case (z_string (property_of props ''label''), translations_schema (property_of props ''translations''),
                 z_string (property_of props ''link''),
                 NavBarLinkItemHTMLAttributesSchema (property_of props ''attrs'')) of
             (Some l, Some t, Some target, Some a) \<Rightarrow>
               if filter (\<lambda>k. k \<notin> set [''label'', ''translations'', ''link'', ''attrs''])
                    (map fst props) = []
               then Some (NavBarLinkItem l t target a) else None
           | _ \<Rightarrow> None)
      | _ \<Rightarrow> None)"

text \<open>\<open>InternalNavBarLinkItemSchema\<close> (lines 30-35) strips the keys outside its shape;
  its label is optional.\<close>

definition InternalNavBarLinkItemSchema :: "('n, 'n NavBarItem) schema" where
  "InternalNavBarLinkItemSchema v =
     (case v of
        JObj props \<Rightarrow>
          (case (z_optional z_string (property_of props ''label''),
                 translations_schema (property_of props ''translations''),
                 z_string (property_of props ''slug''),
                 NavBarLinkItemHTMLAttributesSchema (property_of props ''attrs'')) of
             (Some l, Some t, Some s, Some a) \<Rightarrow> Some (InternalNavBarLinkItem l t s a)
           | _ \<Rightarrow> None)
      | _ \<Rightarrow> None)"

text \<open>The shorthand (lines 36-38): a string, transformed by parsing \<open>{ slug }\<close> with
  the schema above; an error of that inner \<open>parse\<close> is thrown as it is.\<close>

definition InternalNavBarLinkItemShorthandSchema :: "('n, 'n NavBarItem) schema" where
  "InternalNavBarLinkItemShorthandSchema v =
     (case z_string v of
        None \<Rightarrow> None
      | Some slug \<Rightarrow> InternalNavBarLinkItemSchema (JObj [(''slug'', JStr slug)]))"

definition NavBarItemSchema :: "('n, 'n NavBarItem) schema" where
  "NavBarItemSchema =
     z_union [NavBarLinkItemSchema, InternalNavBarLinkItemSchema,
              InternalNavBarLinkItemShorthandSchema]"

section \<open>Inputs for the worked examples\<close>

text \<open>
  A small validator standing in for \<open>parseWithFriendlyErrors(VitesseConfigSchema, ...)\<close>
  in the examples: it reads the entry \<open>prerender\<close> of a configuration whose values are
  strings, defaults it to true, and rejects anything but \<open>true\<close> and \<open>false\<close>.
\<close>

definition example_config :: "bool \<Rightarrow> vitesse_config" where
  "example_config p = \<lparr>prerender = p, components = [], customCss = [], logo = None\<rparr>"

definition example_parse :: "string user_config \<Rightarrow> string \<Rightarrow> exn + vitesse_config" where
  "example_parse cfg msg =
     (case cfg ''prerender'' of
        None \<Rightarrow> Inr (example_config True)
      | Some v \<Rightarrow>
          if v = ''true'' then Inr (example_config True)
          else if v = ''false'' then Inr (example_config False)
          else Inl (AstroError msg ''prerender: Expected boolean''))"

definition example_context :: "string plugin_context" where
  "example_context =
     \<lparr>config_output = ''static'', host_integrations = [], command = ''build'', isRestart = False\<rparr>"

definition sitemap_plugin :: "(string, string) plugin" where
  "sitemap_plugin =
     \<lparr>name = ''sitemap'', hooks_setup = (\<lambda>args. [AddIntegration ''sitemap-integration''])\<rparr>"


definition ssr_plugin :: "(string, string) plugin" where
  "ssr_plugin =
     \<lparr>name = ''ssr'', hooks_setup = (\<lambda>args. [UpdateConfig [''prerender'' \<mapsto> ''false'']])\<rparr>"


text \<open>A plugin that injects a string for a locale named \<open>toString\<close>.\<close>

definition builtin_locale_plugin :: "(string, string) plugin" where
  "builtin_locale_plugin =
     \<lparr>name = ''greeter'',
      hooks_setup = (\<lambda>args. [InjectTranslations [(''toString'', [(''greeting'', ''Hello'')])]])\<rparr>"

text \<open>
  An environment for the examples of the registry: a project at \<open>/site/\<close> on a POSIX
  system. \<open>posix_resolve\<close> is \<open>path.resolve\<close> there for an absolute first argument:
  the second path is appended unless it is absolute itself, and the empty, \<open>.\<close> and
  \<open>..\<close> segments are resolved. \<open>fileURLToPath\<close> drops the scheme of a \<open>file://\<close> URL
  without escapes. The three serialisations are not looked at in the examples and are
  left as \<open>{}\<close>.
\<close>

fun split_path :: "string \<Rightarrow> string list" where
  "split_path [] = [[]]"
| "split_path (c # cs) =
     (if c = CHR ''/'' then [] # split_path cs
      else (case split_path cs of [] \<Rightarrow> [[c]] | seg # segs \<Rightarrow> (c # seg) # segs))"

fun normalize_segments :: "string list \<Rightarrow> string list \<Rightarrow> string list" where
  "normalize_segments up [] = rev up"
| "normalize_segments up (seg # segs) =
     (if seg = [] \<or> seg = ''.'' then normalize_segments up segs
      else if seg = ''..'' then normalize_segments (tl up) segs
      else normalize_segments (seg # up) segs)"

definition posix_resolve :: "string \<Rightarrow> string \<Rightarrow> string" where
  "posix_resolve dir target =
     (let segs = normalize_segments []
                   (split_path (if take 1 target = ''/'' then target else dir @ ''/'' @ target))
      in if segs = [] then ''/'' else concat (map ((#) CHR ''/'') segs))"

definition example_host :: "(string, unit) host" where
  "example_host =
     \<lparr>fileURLToPath = drop 7, path_resolve = posix_resolve,
      stringify_config = (\<lambda>opts. ''{}''), stringify_context = (\<lambda>ctx. ''{}''),
      stringify_translations = (\<lambda>translations. ''{}'')\<rparr>"

definition example_project :: "string project_context" where
  "example_project =
     \<lparr>build_format = ''directory'', root = ''file:///site/'', srcDir = ''file:///site/src/'',
      trailingSlash = ''ignore''\<rparr>"

text \<open>
  File systems for the examples of the loader, and a stand-in for \<open>JSON.parse\<close> that
  accepts the texts starting with a brace and keeps them as they are. In
  \<open>dangling_fs\<close> the directory lists \<open>fr.json\<close>, but reading it fails with
  \<open>ENOENT\<close>, as for a symbolic link whose target is gone.
\<close>

definition ENOENT :: thrown where
  "ENOENT = \<lparr>instanceof_Error = True, code = Some ''ENOENT'',
              message = ''ENOENT: no such file or directory''\<rparr>"

definition SyntaxError :: thrown where
  "SyntaxError = \<lparr>instanceof_Error = True, code = None, message = ''Unexpected token''\<rparr>"

definition example_JSON_parse :: "string \<Rightarrow> thrown + string" where
  "example_JSON_parse src = (if take 1 src = ''{'' then Inr src else Inl SyntaxError)"

definition missing_dir_fs :: file_system where
  "missing_dir_fs = \<lparr>readdirSync = Inl ENOENT, readFileSync = (\<lambda>file. Inl ENOENT)\<rparr>"

definition good_fs :: file_system where
  "good_fs =
     \<lparr>readdirSync = Inr [''en.json'', ''notes.txt'', ''fr.json''],
      readFileSync = (\<lambda>file.
        if file = ''en.json'' then Inr ''{}''
        else if file = ''fr.json'' then Inr ''{ }''
        else Inl ENOENT)\<rparr>"

definition dangling_fs :: file_system where
  "dangling_fs =
     \<lparr>readdirSync = Inr [''en.json'', ''fr.json''],
      readFileSync = (\<lambda>file.
        if file = ''en.json'' then Inr ''{}'' else Inl ENOENT)\<rparr>"

section \<open>Properties of the plugin runtime\<close>

lemma not_inherited_plugins: "\<not> inherited ''plugins''"
  by (simp add: inherited_def Object_prototype_keys_def)

lemma js_in_plugins: "js_in ''plugins'' obj = (obj ''plugins'' \<noteq> None)"
  by (simp add: js_in_def not_inherited_plugins split: option.splits)







text \<open>
  C2. When the initial validation succeeds and every plugin setup completes, leaving the
  closure variables in the state \<open>st\<close>, \<open>runPlugins\<close> throws the configuration-conflict
  error if the host's output mode is \<open>static\<close> and the prerender flag of the final
  validated configuration is false, and otherwise returns the accumulated integrations,
  the final validated configuration and the accumulated translations.
\<close>

theorem prerender_conflict_iff:
  assumes "parse uc ''Invalid config passed to vitesse integration'' = Inr c0"
    and "run_setups parse pl ctx (case pl of None \<Rightarrow> [] | Some ps \<Rightarrow> ps)
           (initial_state uc c0) = (None, st)"
  shows "runPlugins parse uc pl ctx =
           (if config_output ctx = ''static'' \<and> \<not> prerender (vitesseConfig st)
            then Inl prerender_conflict
            else Inr \<lparr>result_integrations = integrations st,
                      result_vitesseConfig = vitesseConfig st,
                      result_pluginTranslations = pluginTranslations st\<rparr>) \<and>
         (runPlugins parse uc pl ctx = Inl prerender_conflict) =
           (config_output ctx = ''static'' \<and> \<not> prerender (vitesseConfig st))"
  using assms by (simp add: runPlugins_def)

theorem prerender_conflict_iff_witness:
  "runPlugins example_parse Map.empty (Some [sitemap_plugin, ssr_plugin]) example_context =
     Inl prerender_conflict \<and>
   runPlugins example_parse Map.empty (Some [sitemap_plugin]) example_context =
     Inr \<lparr>result_integrations = [''sitemap-integration''],
          result_vitesseConfig = example_config True,
          result_pluginTranslations = Map.empty\<rparr> \<and>
   runPlugins example_parse Map.empty (Some [sitemap_plugin, ssr_plugin])
       (example_context\<lparr>config_output := ''server''\<rparr>) =
     Inr \<lparr>result_integrations = [''sitemap-integration''],
          result_vitesseConfig = example_config False,
          result_pluginTranslations = Map.empty\<rparr>"
proof -
  let ?st = "\<lparr>userConfig = Map.empty, vitesseConfig = example_config True,
               integrations = [''sitemap-integration''],
               pluginTranslations = Map.empty\<rparr> :: (string, unit, string) run_state"
  let ?st' = "\<lparr>userConfig = [''prerender'' \<mapsto> ''false''], vitesseConfig = example_config False,
               integrations = [''sitemap-integration''],
               pluginTranslations = Map.empty\<rparr> :: (string, unit, string) run_state"
  have h1: "example_parse Map.empty ''Invalid config passed to vitesse integration'' =
              Inr (example_config True)"
    by (simp add: example_parse_def)
  have a: "run_setups example_parse (Some [sitemap_plugin, ssr_plugin]) ctx
             (case Some [sitemap_plugin, ssr_plugin] of None \<Rightarrow> [] | Some ps \<Rightarrow> ps)
             (initial_state Map.empty (example_config True)) = (None, ?st')" for ctx
    by (simp add: sitemap_plugin_def ssr_plugin_def addIntegration_def initial_state_def
        updateConfig_def js_in_plugins z_record_map_def example_parse_def)
  have b: "run_setups example_parse (Some [sitemap_plugin]) example_context
             (case Some [sitemap_plugin] of None \<Rightarrow> [] | Some ps \<Rightarrow> ps)
             (initial_state Map.empty (example_config True)) = (None, ?st)"
    by (simp add: sitemap_plugin_def addIntegration_def initial_state_def)
  show ?thesis
    using prerender_conflict_iff [OF h1 a, of example_context]
      prerender_conflict_iff [OF h1 b]
      prerender_conflict_iff [OF h1 a, of "example_context\<lparr>config_output := ''server''\<rparr>"]
    by (simp add: example_context_def example_config_def)
qed

text \<open>
  C9. For an update without the key \<open>plugins\<close>: if the merged configuration fails
  validation, \<open>updateConfig\<close> throws that error and every closure variable, the working
  \<open>userConfig\<close> and the validated configuration among them, is what it was before the
  call; if validation succeeds, the merged configuration and its validated form are
  installed together.
\<close>

theorem updateConfig_atomic:
  assumes "\<not> js_in ''plugins'' newConfig"
  shows "(\<forall>e. parse (userConfig st ++ newConfig) (update_context_message n) = Inl e \<longrightarrow>
            updateConfig parse n newConfig st = (Some e, st)) \<and>
         (\<forall>c. parse (userConfig st ++ newConfig) (update_context_message n) = Inr c \<longrightarrow>
            updateConfig parse n newConfig st =
              (None, st\<lparr>userConfig := userConfig st ++ newConfig, vitesseConfig := c\<rparr>))"
  using assms by (simp add: updateConfig_def Let_def)

theorem updateConfig_atomic_witness:
  "updateConfig example_parse ''ssr'' [''prerender'' \<mapsto> ''maybe'']
       (initial_state Map.empty (example_config True) :: (string, unit, string) run_state) =
     (Some (AstroError (update_context_message ''ssr'') ''prerender: Expected boolean''),
      initial_state Map.empty (example_config True)) \<and>
   updateConfig example_parse ''ssr'' [''prerender'' \<mapsto> ''false'']
       (initial_state Map.empty (example_config True) :: (string, unit, string) run_state) =
     (None, \<lparr>userConfig = [''prerender'' \<mapsto> ''false''], vitesseConfig = example_config False,
             integrations = [], pluginTranslations = Map.empty\<rparr>)"
proof -
  have h: "\<not> js_in ''plugins'' [''prerender'' \<mapsto> x]" for x :: string
    by (simp add: js_in_plugins)
  show ?thesis
    using updateConfig_atomic [OF h, of example_parse
        "initial_state Map.empty (example_config True) :: (string, unit, string) run_state"
        "''maybe''" "''ssr''"]
      updateConfig_atomic [OF h, of example_parse
        "initial_state Map.empty (example_config True) :: (string, unit, string) run_state"
        "''false''" "''ssr''"]
    by (simp add: example_parse_def initial_state_def)
qed

text \<open>
  The accumulated translations. A round of the loop that runs to its end extends the
  entry of its own locale when the locale is not named like a property of
  \<open>Object.prototype\<close>, and changes nothing otherwise; a round that throws changes
  nothing. So do the rounds of a call, of the steps of a setup and of all setups.
\<close>

lemma Object_assign_eq: "Object_assign t lt = t ++ map_of (rev (z_record_pairs lt))"
  by (induction lt arbitrary: t) (auto simp: z_record_pairs_def map_add_upd_left)

lemma fragments_of_append:
  "fragments_of locale (xs @ ys) = fragments_of locale xs @ fragments_of locale ys"
  by (simp add: fragments_of_def)

lemma extended_append:
  "extended fs2 (extended fs1 entry) = extended (fs1 @ fs2) entry"
  by (auto simp: extended_def split: option.splits)

lemma accumulates_refl: "accumulates [] pt pt"
  by (simp add: accumulates_def fragments_of_def extended_def)

lemma accumulates_trans:
  assumes "accumulates r1 pt pt'" and "accumulates r2 pt' pt''"
  shows "accumulates (r1 @ r2) pt pt''"
  unfolding accumulates_def
proof (intro allI conjI impI)
  fix l assume "\<not> inherited l"
  then show "pt'' l = extended (fragments_of l (r1 @ r2)) (pt l)"
    using assms by (simp add: accumulates_def fragments_of_append extended_append)
next
  fix l assume "inherited l" and "pt l = None"
  then show "pt'' l = None"
    using assms by (simp add: accumulates_def)
qed

lemma inject_locale_accumulates:
  "inject_locale locale lt pt = (None, pt') \<Longrightarrow> accumulates [(locale, lt)] pt pt'"
  by (auto simp: inject_locale_def accumulates_def fragments_of_def extended_def
      Object_assign_eq split: option.splits if_splits list.splits)

lemma inject_locale_throws: "inject_locale locale lt pt = (Some e, pt') \<Longrightarrow> pt' = pt"
  by (auto simp: inject_locale_def split: option.splits if_splits list.splits)

lemma inject_entries_accumulates:
  "accumulates (completed_rounds es pt) pt (snd (inject_entries es pt))"
proof (induction es arbitrary: pt)
  case Nil
  show ?case by (simp add: accumulates_refl)
next
  case (Cons entry es)
  obtain l lt where e: "entry = (l, lt)" by (cases entry)
  obtain r pt' where i: "inject_locale l lt pt = (r, pt')" by (cases "inject_locale l lt pt")
  show ?case
  proof (cases r)
    case None
    then have "accumulates [(l, lt)] pt pt'"
      using i by (simp add: inject_locale_accumulates)
    then have "accumulates ([(l, lt)] @ completed_rounds es pt') pt (snd (inject_entries es pt'))"
      using Cons [of pt'] by (rule accumulates_trans)
    then show ?thesis
      using i None by (simp add: e)
  next
    case (Some x)
    then have "pt' = pt" using i by (simp add: inject_locale_throws)
    then show ?thesis
      using i Some by (simp add: e accumulates_refl)
  qed
qed

lemma run_accumulates:
  "accumulates (rounds_of_call parse n c st) (pluginTranslations st)
     (pluginTranslations (snd (run_call parse n c st)))"
  "accumulates (rounds_of_calls parse n cs st) (pluginTranslations st)
     (pluginTranslations (snd (run_calls parse n cs st)))"
proof (induction parse n c st and parse n cs st rule: run_call_run_calls.induct)
  case (1 parse n newConfig st)
  show ?case
    by (simp add: updateConfig_def Let_def accumulates_refl split: sum.splits)
next
  case (2 parse n integration st)
  show ?case by (simp add: addIntegration_def accumulates_refl)
next
  case (3 parse n tr st)
  show ?case
    using inject_entries_accumulates [of "parsed_translations tr" "pluginTranslations st"]
    by (auto simp: injectTranslations_def split: prod.splits)
next
  case (4 parse n e st)
  show ?case by (simp add: accumulates_refl)
next
  case (5 parse n body handler st)
  obtain r st' where b: "run_calls parse n body st = (r, st')"
    by (cases "run_calls parse n body st")
  show ?case
  proof (cases r)
    case None
    then show ?thesis using 5(1) b by simp
  next
    case (Some e)
    have "accumulates (rounds_of_calls parse n body st @ rounds_of_calls parse n handler st')
            (pluginTranslations st) (pluginTranslations (snd (run_calls parse n handler st')))"
      using 5(1) 5(2) [of r st' e] b Some accumulates_trans by fastforce
    then show ?thesis using b Some by simp
  qed
next
  case (6 parse n st)
  show ?case by (simp add: accumulates_refl)
next
  case (7 parse n c cs st)
  obtain r st' where b: "run_call parse n c st = (r, st')"
    by (cases "run_call parse n c st")
  show ?case
  proof (cases r)
    case (Some e)
    then show ?thesis using 7(1) b by simp
  next
    case None
    have "accumulates (rounds_of_call parse n c st @ rounds_of_calls parse n cs st')
            (pluginTranslations st) (pluginTranslations (snd (run_calls parse n cs st')))"
      using 7(1) 7(2) [of r st'] b None accumulates_trans by fastforce
    then show ?thesis using b None by simp
  qed
qed

lemma run_setups_accumulates:
  "accumulates (rounds_of_setups parse pl ctx ps st) (pluginTranslations st)
     (pluginTranslations (snd (run_setups parse pl ctx ps st)))"
proof (induction ps arbitrary: st)
  case Nil
  show ?case by (simp add: accumulates_refl)
next
  case (Cons p ps)
  let ?cs = "hooks_setup p (setup_arguments pl ctx (name p) st)"
  obtain r st' where b: "run_calls parse (name p) ?cs st = (r, st')"
    by (cases "run_calls parse (name p) ?cs st")
  have a: "accumulates (rounds_of_calls parse (name p) ?cs st) (pluginTranslations st)
             (pluginTranslations st')"
    using run_accumulates(2) [of parse "name p" ?cs st] b by simp
  show ?case
  proof (cases r)
    case (Some e)
    then show ?thesis using a b by (simp add: Let_def)
  next
    case None
    have "accumulates (rounds_of_calls parse (name p) ?cs st @ rounds_of_setups parse pl ctx ps st')
            (pluginTranslations st) (pluginTranslations (snd (run_setups parse pl ctx ps st')))"
      using a Cons [of st'] by (rule accumulates_trans)
    then show ?thesis using b None by (simp add: Let_def)
  qed
qed

text \<open>
  The table returned by \<open>runPlugins\<close> is the merge of the fragments of the rounds that
  ran, in execution order, except that it has no entry for a locale named like a
  property of \<open>Object.prototype\<close>.
\<close>

lemma initial_translations: "pluginTranslations (initial_state uc c0) = Map.empty"
  by (simp add: initial_state_def)

lemma accumulated_translations:
  assumes "runPlugins parse uc pl ctx = Inr r"
  shows "\<exists>c0. parse uc ''Invalid config passed to vitesse integration'' = Inr c0 \<and>
           (\<forall>locale. result_pluginTranslations r locale =
              (if inherited locale then None
               else merged_table
                      [map (\<lambda>(l, lt). (l, z_record_pairs lt))
                         (rounds_of_setups parse pl ctx
                            (case pl of None \<Rightarrow> [] | Some ps \<Rightarrow> ps) (initial_state uc c0))]
                      locale))"
proof -
  from assms obtain c0 st where
    p: "parse uc ''Invalid config passed to vitesse integration'' = Inr c0" and
    s: "run_setups parse pl ctx (case pl of None \<Rightarrow> [] | Some ps \<Rightarrow> ps) (initial_state uc c0) =
          (None, st)" and
    r: "result_pluginTranslations r = pluginTranslations st"
    by (auto simp: runPlugins_def Let_def split: sum.splits prod.splits option.splits if_splits)
  let ?rounds = "rounds_of_setups parse pl ctx (case pl of None \<Rightarrow> [] | Some ps \<Rightarrow> ps)
                   (initial_state uc c0)"
  have a: "accumulates ?rounds Map.empty (pluginTranslations st)"
    using run_setups_accumulates [of parse pl ctx "case pl of None \<Rightarrow> [] | Some ps \<Rightarrow> ps"
        "initial_state uc c0"] s
    by (simp add: initial_translations)
  have f: "fragments_of l (map (\<lambda>(l, lt). (l, z_record_pairs lt)) rs) =
             map z_record_pairs (fragments_of l rs)" for l rs
    by (induction rs) (auto simp: fragments_of_def)
  have "pluginTranslations st l =
          (if inherited l then None
           else merged_table [map (\<lambda>(l, lt). (l, z_record_pairs lt)) ?rounds] l)" for l
    using a by (auto simp: accumulates_def merged_table_def extended_def f)
  then show ?thesis using p r by simp
qed

lemma later_plugin_wins:
  assumes "\<not> inherited locale" and "k \<noteq> ''__proto__''"
  shows "\<exists>t. snd (inject_entries [(locale, [(k, v2)])]
                  (snd (inject_entries [(locale, [(k, v1)])] pt))) locale = Some t \<and>
             t k = Some v2"
  using assms by (auto simp: inject_locale_def split: option.splits)

text \<open>
  C4. A locale named like a property of \<open>Object.prototype\<close> gets no entry in the
  accumulated table: when a single plugin injects \<open>{ toString: { greeting: 'Hello' } }\<close>,
  the run completes and the returned table is empty, whereas the merge of the injected
  fragments maps \<open>toString\<close> to \<open>{ greeting: 'Hello' }\<close>.
\<close>

theorem builtin_locale_name_is_lost:
  "runPlugins example_parse Map.empty (Some [builtin_locale_plugin]) example_context =
     Inr \<lparr>result_integrations = [], result_vitesseConfig = example_config True,
          result_pluginTranslations = Map.empty\<rparr> \<and>
   merged_table [[(''toString'', [(''greeting'', ''Hello'')])]] ''toString'' =
     Some [''greeting'' \<mapsto> ''Hello'']"
  by (simp add: runPlugins_def example_parse_def initial_state_def builtin_locale_plugin_def
      injectTranslations_def parsed_translations_def z_record_pairs_def refused_keys_def
      inject_locale_def inherited_def Object_prototype_keys_def
      example_context_def example_config_def merged_table_def fragments_of_def)


section \<open>Properties of the navigation item schemas\<close>

text \<open>
  C8. For every string \<open>s\<close>, validating the bare string \<open>s\<close> as a navigation item and
  validating the object \<open>{ slug: s }\<close> as an internal link item both succeed, with the
  same output: no label, no translations, the slug \<open>s\<close> and no attributes.
\<close>

theorem shorthand_is_internal_link_item:
  "NavBarItemSchema (JStr s) = Some (InternalNavBarLinkItem None [] s []) \<and>
   InternalNavBarLinkItemSchema (JObj [(''slug'', JStr s)]) =
     Some (InternalNavBarLinkItem None [] s [])"
  by (simp add: NavBarItemSchema_def NavBarLinkItemSchema_def InternalNavBarLinkItemSchema_def
      InternalNavBarLinkItemShorthandSchema_def z_string_def z_optional_def z_default_def
      z_record_def z_record_pairs_def translations_schema_def
      NavBarLinkItemHTMLAttributesSchema_def linkHTMLAttributesSchema_def property_of_def)

theorem shorthand_is_internal_link_item_witness:
  "NavBarItemSchema (JStr ''guides/intro'' :: unit jsval) =
     Some (InternalNavBarLinkItem None [] ''guides/intro'' []) \<and>
   InternalNavBarLinkItemSchema (JObj [(''slug'', JStr ''guides/intro'')] :: unit jsval) =
     Some (InternalNavBarLinkItem None [] ''guides/intro'' [])"
  using shorthand_is_internal_link_item [of "''guides/intro''"] by simp

section \<open>Properties of the virtual module registry\<close>

lemma module_name_prefix:
  "k \<in> set (map fst (modules_entries h opts ctx tr)) \<Longrightarrow> take 16 k = ''virtual:vitesse/''"
  by (auto simp: modules_entries_def virtualComponentModules_def)

lemma module_name_nonempty:
  "k \<in> set (map fst (modules_entries h opts ctx tr)) \<Longrightarrow> k \<noteq> []"
  using module_name_prefix [of k h opts ctx tr] by auto

lemma fromEntries_dom: "(Object_fromEntries es k \<noteq> None) = (k \<in> set (map fst es))"
  by (simp add: Object_fromEntries_def map_of_eq_None_iff)

lemma inherited_not_module:
  "inherited k \<Longrightarrow> k \<notin> set (map fst (modules_entries h opts ctx tr))"
proof
  assume i: "inherited k" and "k \<in> set (map fst (modules_entries h opts ctx tr))"
  from this(2) have "take 16 k = ''virtual:vitesse/''" by (rule module_name_prefix)
  with i show False
    by (auto simp: inherited_def Object_prototype_keys_def)
qed

lemma not_inherited_internal: "\<not> inherited (CHR 0x00 # k)"
  by (simp add: inherited_def Object_prototype_keys_def)

lemma resolutionMap_lookup:
  "resolutionMap h opts ctx tr ident =
     (case ident of
        [] \<Rightarrow> None
      | c # k \<Rightarrow> if c = CHR 0x00 \<and> k \<in> set (map fst (modules_entries h opts ctx tr))
                 then Some k else None)"
proof -
  have *: "map_of (rev (map (\<lambda>key. (CHR 0x00 # key, key)) ks)) ident =
        (case ident of [] \<Rightarrow> None | c # k \<Rightarrow> if c = CHR 0x00 \<and> k \<in> set ks then Some k else None)"
    for ks
    by (induction ks) (auto simp: map_add_def split: list.splits option.splits)
  show ?thesis
    by (simp add: resolutionMap_def Object_fromEntries_def resolveVirtualModuleId_def
        module_names_def * [of "remdups _"] split: list.splits)
qed

text \<open>What the two hooks compute, for every requested id.\<close>

lemma plugin_resolveId_eq:
  "plugin_resolveId h opts ctx tr ident =
     (if ident \<in> set (module_names h opts ctx tr) \<or> inherited ident
      then Some (CHR 0x00 # ident) else None)"
  using fromEntries_dom [of "modules_entries h opts ctx tr" ident]
  by (auto simp: plugin_resolveId_def js_in_def modules_def module_names_def
      resolveVirtualModuleId_def split: option.splits)

lemma plugin_load_empty: "plugin_load h opts ctx tr [] = None"
  by (simp add: plugin_load_def js_get_def resolutionMap_lookup inherited_def
      Object_prototype_keys_def)

lemma plugin_load_internal:
  assumes "k \<in> set (map fst (modules_entries h opts ctx tr))"
  shows "plugin_load h opts ctx tr (CHR 0x00 # k) = modules h opts ctx tr k"
proof -
  have ne: "k \<noteq> []" using assms by (rule module_name_nonempty)
  obtain body where t: "modules h opts ctx tr k = Some body"
    using assms fromEntries_dom [of "modules_entries h opts ctx tr" k] by (auto simp: modules_def)
  show ?thesis
    using assms ne t
    by (simp add: plugin_load_def js_get_def resolutionMap_lookup module_names_def)
qed

lemma plugin_load_other:
  "\<not> (c = CHR 0x00 \<and> k \<in> set (map fst (modules_entries h opts ctx tr))) \<Longrightarrow>
   plugin_load h opts ctx tr (c # k) = None"
  by (auto simp: plugin_load_def js_get_def resolutionMap_lookup module_names_def
      inherited_def Object_prototype_keys_def)

lemma plugin_load_eq:
  "plugin_load h opts ctx tr ident =
     (case ident of
        [] \<Rightarrow> None
      | c # k \<Rightarrow> if c = CHR 0x00 \<and> k \<in> set (module_names h opts ctx tr)
                 then modules h opts ctx tr k else None)"
proof (cases ident)
  case Nil
  then show ?thesis by (simp add: plugin_load_empty)
next
  case (Cons c k)
  show ?thesis
  proof (cases "c = CHR 0x00 \<and> k \<in> set (map fst (modules_entries h opts ctx tr))")
    case True
    then show ?thesis
      unfolding Cons by (simp add: plugin_load_internal module_names_def)
  next
    case False
    then have "plugin_load h opts ctx tr (c # k) = None" by (rule plugin_load_other)
    with False show ?thesis
      unfolding Cons by (auto simp: module_names_def)
  qed
qed

text \<open>
  The round trip for the public names: a public name resolves to its internal id, the
  internal id loads the text registered for the name, the unprefixed name loads nothing
  and the internal id resolves to nothing.
\<close>

lemma load_resolve_round_trip:
  assumes "n \<in> set (module_names h opts ctx tr)"
  shows "\<exists>body. modules h opts ctx tr n = Some body \<and>
           plugin_resolveId h opts ctx tr n = Some (CHR 0x00 # n) \<and>
           plugin_load h opts ctx tr (CHR 0x00 # n) = Some body \<and>
           plugin_load h opts ctx tr n = None \<and>
           plugin_resolveId h opts ctx tr (CHR 0x00 # n) = None"
proof -
  from assms have m: "n \<in> set (map fst (modules_entries h opts ctx tr))"
    by (simp add: module_names_def)
  then obtain body where t: "modules h opts ctx tr n = Some body"
    using fromEntries_dom [of "modules_entries h opts ctx tr" n] by (auto simp: modules_def)
  have p: "take 16 n = ''virtual:vitesse/''" using m by (rule module_name_prefix)
  have "plugin_load h opts ctx tr n = None"
    using p by (cases n) (auto simp: plugin_load_eq)
  moreover have "CHR 0x00 # n \<notin> set (module_names h opts ctx tr)"
    using module_name_prefix [of "CHR 0x00 # n" h opts ctx tr] by (auto simp: module_names_def)
  ultimately show ?thesis
    using assms t by (simp add: plugin_resolveId_eq plugin_load_eq not_inherited_internal)
qed

text \<open>
  C3. An id that names a property of \<open>Object.prototype\<close> is answered by the hook
  \<open>resolveId\<close> although it is no public name: for the id \<open>toString\<close>, whatever the
  configuration, \<open>resolveId\<close> returns the internal id, \<open>toString\<close> is not among the
  public names of the registry, and \<open>load\<close> has no text for the internal id that
  \<open>resolveId\<close> produced.
\<close>

theorem resolveId_claims_inherited_name:
  "plugin_resolveId h opts ctx tr ''toString'' = Some (CHR 0x00 # ''toString'') \<and>
   ''toString'' \<notin> set (module_names h opts ctx tr) \<and>
   plugin_load h opts ctx tr (CHR 0x00 # ''toString'') = None"
proof -
  have i: "inherited ''toString''"
    by (simp add: inherited_def Object_prototype_keys_def)
  then have "''toString'' \<notin> set (module_names h opts ctx tr)"
    using inherited_not_module [of "''toString''" h opts ctx tr] by (simp add: module_names_def)
  then show ?thesis
    using i by (simp add: plugin_resolveId_eq plugin_load_eq)
qed

lemma hex_round: "k < 16 \<Longrightarrow> hex_value (hex_digit k) = Some k"
proof -
  assume "k < 16"
  then have "k = 0 \<or> k = 1 \<or> k = 2 \<or> k = 3 \<or> k = 4 \<or> k = 5 \<or> k = 6 \<or> k = 7 \<or>
      k = 8 \<or> k = 9 \<or> k = 10 \<or> k = 11 \<or> k = 12 \<or> k = 13 \<or> k = 14 \<or> k = 15"
    by arith
  then show ?thesis
    by (auto simp: hex_value_def hex_digit_def)
qed

lemma unescape_escape:
  "json_unescape (json_escape c @ rest) = map_option ((#) c) (json_unescape rest)"
proof (cases "(of_char c :: nat) < 32")
  case False
  then show ?thesis
    by (auto simp: json_escape_def simple_escape_def)
next
  case True
  have d: "(of_char c :: nat) div 16 < 16" using True by simp
  have m: "hex_value (hex_digit (of_char c)) = Some ((of_char c :: nat) mod 16)"
    using hex_round [of "(of_char c :: nat) mod 16"] by (simp add: hex_digit_def)
  have r: "char_of (16 * ((of_char c :: nat) div 16) + (of_char c :: nat) mod 16) = c"
    by simp
  show ?thesis
    using True hex_round [OF d] m r
    by (auto simp: json_escape_def simple_escape_def)
qed

lemma unescape_concat: "json_unescape (concat (map json_escape s)) = Some s"
  by (induction s) (simp_all add: unescape_escape)

lemma string_literal_value_stringify: "string_literal_value (JSON_stringify s) = Some s"
  by (simp add: string_literal_value_def JSON_stringify_def dq_def unescape_concat butlast_append)

text \<open>
  C5. For every path \<open>ident\<close> and base directory (the project root when none is given):
  if \<open>ident\<close> starts with a dot, the emitted reference is the string literal of
  \<open>path.resolve\<close> of the base directory's path and \<open>ident\<close>; otherwise it is the string
  literal of \<open>ident\<close> itself. In both cases the literal, read back, is that string.
\<close>

theorem resolveId_relative_or_bare:
  "(startsWith_dot ident \<longrightarrow>
      resolveId h r ident base =
        JSON_stringify
          (path_resolve h (fileURLToPath h (case base of None \<Rightarrow> r | Some b \<Rightarrow> b)) ident) \<and>
      string_literal_value (resolveId h r ident base) =
        Some (path_resolve h (fileURLToPath h (case base of None \<Rightarrow> r | Some b \<Rightarrow> b)) ident)) \<and>
   (\<not> startsWith_dot ident \<longrightarrow>
      resolveId h r ident base = JSON_stringify ident \<and>
      string_literal_value (resolveId h r ident base) = Some ident)"
  by (simp add: resolveId_def string_literal_value_stringify)

theorem resolveId_relative_or_bare_witness:
  "resolveId example_host ''file:///site/'' ''./a.css'' None = dq @ ''/site/a.css'' @ dq \<and>
   resolveId example_host ''file:///site/'' ''./content/config.ts'' (Some ''file:///site/src/'') =
     dq @ ''/site/src/content/config.ts'' @ dq \<and>
   resolveId example_host ''file:///site/'' ''my-pkg/style.css'' None =
     dq @ ''my-pkg/style.css'' @ dq"
  using resolveId_relative_or_bare [of "''./a.css''" example_host "''file:///site/''" None]
    resolveId_relative_or_bare [of "''./content/config.ts''" example_host "''file:///site/''"
      "Some ''file:///site/src/''"]
    resolveId_relative_or_bare [of "''my-pkg/style.css''" example_host "''file:///site/''" None]
  by (simp add: startsWith_dot_def example_host_def posix_resolve_def JSON_stringify_def
      json_escape_def)

lemma component_key_differs:
  "map_of (rev (virtualComponentModules h r opts)) ''virtual:vitesse/user-images'' = None"
  by (auto simp: map_of_eq_None_iff virtualComponentModules_def)

lemma modules_user_images:
  "modules h opts ctx tr ''virtual:vitesse/user-images'' = Some (user_images h (root ctx) opts)"
  by (simp add: modules_def modules_entries_def Object_fromEntries_def map_add_def
      component_key_differs)

text \<open>
  C6. The text registered for \<open>virtual:vitesse/user-images\<close> has one of three shapes:
  with no logo, the export of an empty \<open>logos\<close> object; with the single-image form, one
  import of that asset and \<open>logos\<close> with \<open>dark\<close> and \<open>light\<close> both bound to it; with
  the pair form, one import for each and \<open>logos = { dark, light }\<close>.
\<close>

theorem user_images_shapes:
  "(logo opts = None \<longrightarrow>
      modules h opts ctx tr ''virtual:vitesse/user-images'' = Some ''export const logos = {};'') \<and>
   (\<forall>src. logo opts = Some (LogoSrc src) \<longrightarrow>
      modules h opts ctx tr ''virtual:vitesse/user-images'' =
        Some (''import src from '' @ resolveId h (root ctx) src None @
              ''; export const logos = { dark: src, light: src };'')) \<and>
   (\<forall>dark light. logo opts = Some (LogoDarkLight dark light) \<longrightarrow>
      modules h opts ctx tr ''virtual:vitesse/user-images'' =
        Some (''import dark from '' @ resolveId h (root ctx) dark None @
              ''; import light from '' @ resolveId h (root ctx) light None @
              ''; export const logos = { dark, light };''))"
  by (simp add: modules_user_images user_images_def)

theorem user_images_shapes_witness:
  "modules example_host (example_config True) example_project Map.empty
       ''virtual:vitesse/user-images'' = Some ''export const logos = {};'' \<and>
   modules example_host ((example_config True)\<lparr>logo := Some (LogoSrc ''./logo.svg'')\<rparr>)
       example_project Map.empty ''virtual:vitesse/user-images'' =
     Some (''import src from '' @ dq @ ''/site/logo.svg'' @ dq @
           ''; export const logos = { dark: src, light: src };'') \<and>
   modules example_host
       ((example_config True)\<lparr>logo := Some (LogoDarkLight ''./dark.svg'' ''@brand/light.svg'')\<rparr>)
       example_project Map.empty ''virtual:vitesse/user-images'' =
     Some (''import dark from '' @ dq @ ''/site/dark.svg'' @ dq @
           ''; import light from '' @ dq @ ''@brand/light.svg'' @ dq @
           ''; export const logos = { dark, light };'')"
  using user_images_shapes [of "example_config True" example_host example_project Map.empty]
    user_images_shapes [of "(example_config True)\<lparr>logo := Some (LogoSrc ''./logo.svg'')\<rparr>"
      example_host example_project Map.empty]
    user_images_shapes
      [of "(example_config True)\<lparr>logo := Some (LogoDarkLight ''./dark.svg'' ''@brand/light.svg'')\<rparr>"
        example_host example_project Map.empty]
  by (simp add: example_config_def example_project_def resolveId_def startsWith_dot_def
      example_host_def posix_resolve_def JSON_stringify_def json_escape_def)

section \<open>Properties of the translation loader\<close>

lemma read_locale_files_append:
  "read_locale_files rf jp (fs1 @ fs2) =
     (case read_locale_files rf jp fs1 of
        Inl e \<Rightarrow> Inl e
      | Inr es1 \<Rightarrow>
          (case read_locale_files rf jp fs2 of Inl e \<Rightarrow> Inl e | Inr es2 \<Rightarrow> Inr (es1 @ es2)))"
  by (induction fs1) (auto split: sum.splits)

lemma read_locale_files_length:
  "read_locale_files rf jp files = Inr entries \<Longrightarrow> length entries = length files"
  by (induction files arbitrary: entries) (auto split: sum.splits)

text \<open>
  C10. The table read from disk is never partial. An \<open>ENOENT\<close> error is absorbed
  whether it comes from listing the directory or from reading any one of the locale
  files, after any number of files were read and parsed; in each case the table is the
  empty one. A table that is returned is either empty or holds an entry for every
  \<open>.json\<close> file of the listing.
\<close>

theorem ENOENT_never_leaves_partial_table:
  "(\<forall>e. readdirSync fs = Inl e \<and> is_ENOENT e \<longrightarrow> userTranslations fs jp = Inr Map.empty) \<and>
   (\<forall>files earlier f rest parsed e.
      readdirSync fs = Inr files \<and> filter endsWith_json files = earlier @ f # rest \<and>
      read_locale_files (readFileSync fs) jp earlier = Inr parsed \<and>
      readFileSync fs f = Inl e \<and> is_ENOENT e \<longrightarrow>
      userTranslations fs jp = Inr Map.empty) \<and>
   (\<forall>table. userTranslations fs jp = Inr table \<longrightarrow>
      table = Map.empty \<or>
      (\<exists>files entries.
         readdirSync fs = Inr files \<and>
         read_locale_files (readFileSync fs) jp (filter endsWith_json files) = Inr entries \<and>
         length entries = length (filter endsWith_json files) \<and>
         table = Object_fromEntries entries))"
proof (intro conjI allI impI)
  fix e assume "readdirSync fs = Inl e \<and> is_ENOENT e"
  then show "userTranslations fs jp = Inr Map.empty"
    by (simp add: userTranslations_def try_block_def)
next
  fix files earlier f rest parsed e
  assume a: "readdirSync fs = Inr files \<and> filter endsWith_json files = earlier @ f # rest \<and>
      read_locale_files (readFileSync fs) jp earlier = Inr parsed \<and>
      readFileSync fs f = Inl e \<and> is_ENOENT e"
  then have "read_locale_files (readFileSync fs) jp (filter endsWith_json files) = Inl e"
    by (simp add: read_locale_files_append)
  with a show "userTranslations fs jp = Inr Map.empty"
    by (simp add: userTranslations_def try_block_def)
next
  fix table assume "userTranslations fs jp = Inr table"
  then show "table = Map.empty \<or>
      (\<exists>files entries.
         readdirSync fs = Inr files \<and>
         read_locale_files (readFileSync fs) jp (filter endsWith_json files) = Inr entries \<and>
         length entries = length (filter endsWith_json files) \<and>
         table = Object_fromEntries entries)"
    by (auto simp: userTranslations_def try_block_def read_locale_files_length
        split: sum.splits if_splits)
qed

lemma good_fs_entries:
  "read_locale_files (readFileSync good_fs) example_JSON_parse
     (filter endsWith_json [''en.json'', ''notes.txt'', ''fr.json'']) =
   Inr [(''en'', ''{}''), (''fr'', ''{ }'')]"
  by (simp add: good_fs_def example_JSON_parse_def endsWith_json_def)

theorem ENOENT_never_leaves_partial_table_witness:
  "userTranslations missing_dir_fs example_JSON_parse = Inr Map.empty \<and>
   userTranslations dangling_fs example_JSON_parse = Inr Map.empty \<and>
   userTranslations good_fs example_JSON_parse =
     Inr (Object_fromEntries [(''en'', ''{}''), (''fr'', ''{ }'')])"
proof -
  have e: "is_ENOENT ENOENT" by (simp add: is_ENOENT_def ENOENT_def)
  have m: "readdirSync missing_dir_fs = Inl ENOENT \<and> is_ENOENT ENOENT"
    using e by (simp add: missing_dir_fs_def)
  have 1: "userTranslations missing_dir_fs example_JSON_parse = Inr Map.empty"
    by (rule ENOENT_never_leaves_partial_table [THEN conjunct1, rule_format, OF m])
  have d: "readdirSync dangling_fs = Inr [''en.json'', ''fr.json''] \<and>
      filter endsWith_json [''en.json'', ''fr.json''] = [''en.json''] @ ''fr.json'' # [] \<and>
      read_locale_files (readFileSync dangling_fs) example_JSON_parse [''en.json''] =
        Inr [(''en'', ''{}'')] \<and>
      readFileSync dangling_fs ''fr.json'' = Inl ENOENT \<and> is_ENOENT ENOENT"
    using e by (simp add: dangling_fs_def endsWith_json_def example_JSON_parse_def)
  have 2: "userTranslations dangling_fs example_JSON_parse = Inr Map.empty"
    by (rule ENOENT_never_leaves_partial_table [THEN conjunct2, THEN conjunct1, rule_format, OF d])
  have 3: "userTranslations good_fs example_JSON_parse =
             Inr (Object_fromEntries [(''en'', ''{}''), (''fr'', ''{ }'')])"
    using good_fs_entries by (simp add: userTranslations_def try_block_def good_fs_def)
  from 1 2 3 show ?thesis by (intro conjI)
qed

text \<open>What does hold of the two cases the loader tells apart.\<close>

lemma other_failures_propagate:
  "try_block fs jp = Inl e \<Longrightarrow> \<not> is_ENOENT e \<Longrightarrow>
   createTranslationSystemFromFs cts fs jp opts translations = Inl e"
  by (simp add: createTranslationSystemFromFs_def userTranslations_def)

lemma missing_directory_gives_empty_table:
  "readdirSync fs = Inl e \<Longrightarrow> is_ENOENT e \<Longrightarrow>
   createTranslationSystemFromFs cts fs jp opts translations =
     cts opts Map.empty (case translations of None \<Rightarrow> Map.empty | Some t \<Rightarrow> t)"
  by (simp add: createTranslationSystemFromFs_def userTranslations_def try_block_def)


text \<open>
  C7. A failure to read a locale file is not always passed on to the caller: when the
  directory exists and lists \<open>en.json\<close> and \<open>fr.json\<close>, \<open>en.json\<close> is read and
  parsed, and reading \<open>fr.json\<close> fails with \<open>ENOENT\<close>, no error reaches the caller
  and the translation system is created from the empty table.
\<close>

theorem missing_locale_file_is_swallowed:
  "createTranslationSystemFromFs cts dangling_fs example_JSON_parse opts translations =
     cts opts Map.empty (case translations of None \<Rightarrow> Map.empty | Some t \<Rightarrow> t) \<and>
   readdirSync dangling_fs = Inr [''en.json'', ''fr.json''] \<and>
   readFileSync dangling_fs ''en.json'' = Inr ''{}'' \<and>
   readFileSync dangling_fs ''fr.json'' = Inl ENOENT"
  by (simp add: createTranslationSystemFromFs_def userTranslations_def try_block_def
      dangling_fs_def endsWith_json_def example_JSON_parse_def is_ENOENT_def ENOENT_def)

end
